theory Spec2Isabelle
  imports Main "HOL-Library.Word"
begin

unbundle bit_operations_syntax

section \<open>Basic types\<close>

type_synonym byte = "8 word"
type_synonym bytes = "byte list"
type_synonym u32 = "32 word"

text \<open>A Go \<^verbatim>\<open>error\<close> value is represented by its message.\<close>

type_synonym error = string

section \<open>Frame codec (package attestedtls)\<close>

subsection \<open>The connection as the codec uses it\<close>

text \<open>
  The codec touches a \<^verbatim>\<open>net.Conn\<close> through \<^verbatim>\<open>Read\<close> and \<^verbatim>\<open>Write\<close>
  only. The incoming data is held in the portions in which the transport delivers it: one
  underlying read returns bytes of the first portion only, at most as many as the buffer
  holds, so a short read is a short portion and a read of no bytes is an empty portion.
  When no portion is left the read fails with the error \<open>closing\<close> (end of stream, a
  timeout). \<open>reads\<close> counts the calls of \<^verbatim>\<open>Read\<close>; \<open>written\<close> keeps the
  buffers handed to \<^verbatim>\<open>Write\<close>, which fails with \<open>wfail\<close> when that is set.
\<close>

record conn =
  pending :: "bytes list"
  closing :: error
  reads :: nat
  written :: "bytes list"
  wfail :: "error option"

text \<open>\<^verbatim>\<open>n, err := c.Read(p)\<close> with \<open>len(p) = k\<close>: the bytes read, the error, the connection.\<close>

definition conn_Read :: "nat \<Rightarrow> conn \<Rightarrow> bytes \<times> error option \<times> conn" where
  "conn_Read k c =
     (case pending c of
        [] \<Rightarrow> ([], Some (closing c), c\<lparr>reads := Suc (reads c)\<rparr>)
      | seg # rest \<Rightarrow>
          (take k seg, None,
           c\<lparr>pending := (if length seg \<le> k then rest else drop k seg # rest),
             reads := Suc (reads c)\<rparr>))"


text \<open>A buffer after a read stored \<open>data\<close> at its start: the rest keeps its old content.\<close>

definition filled :: "bytes \<Rightarrow> bytes \<Rightarrow> bytes" where
  "filled buf data = data @ drop (length data) buf"

subsection \<open>Big-endian length prefix\<close>

text \<open>\<^verbatim>\<open>binary.BigEndian.PutUint32\<close> into a fresh 4-byte buffer.\<close>

definition PutUint32 :: "u32 \<Rightarrow> bytes" where
  "PutUint32 v = [ucast (drop_bit 24 v), ucast (drop_bit 16 v), ucast (drop_bit 8 v), ucast v]"

text \<open>
  \<^verbatim>\<open>binary.BigEndian.Uint32\<close>. On a slice of fewer than 4 bytes Go panics; the codec
  calls it on its 4-byte buffer only, and the last equation is never reached from there.
\<close>

fun Uint32 :: "bytes \<Rightarrow> u32" where
  "Uint32 (b0 # b1 # b2 # b3 # _) =
     (ucast b3 OR push_bit 8 (ucast b2) OR push_bit 16 (ucast b1) OR push_bit 24 (ucast b0))"
| "Uint32 _ = 0"

subsection \<open>Write\<close>

text \<open>The buffer \<^verbatim>\<open>buf\<close> that \<^verbatim>\<open>Write\<close> builds: \<^verbatim>\<open>uint32(len(msg))\<close> truncates.\<close>

definition Write_buf :: "bytes \<Rightarrow> bytes" where
  "Write_buf msg = PutUint32 (of_nat (length msg)) @ msg"


subsection \<open>Read\<close>

text \<open>
  The receive loop of \<^verbatim>\<open>Read\<close>: \<open>len\<close> is the announced length, \<open>rcvlen\<close> the
  32-bit count of bytes received so far, \<open>buf\<close> the bytes gathered. The temporary buffer
  has 1024 bytes.
\<close>

function Read_loop :: "u32 \<Rightarrow> u32 \<Rightarrow> bytes \<Rightarrow> conn \<Rightarrow> (error + bytes) \<times> conn" where
  "Read_loop len rcvlen buf c =
     (case conn_Read 1024 c of
        (data, Some e, c') \<Rightarrow> (Inl (''failed to receive message: '' @ e), c')
      | (data, None, c') \<Rightarrow>
          (if rcvlen + of_nat (length data) = len then (Inr (buf @ data), c')
           else Read_loop len (rcvlen + of_nat (length data)) (buf @ data) c'))"
  by pat_completeness auto
termination
  apply (relation "measure (\<lambda>(len, rcvlen, buf, c). sum_list (map (\<lambda>s. Suc (length s)) (pending c)))")
   apply simp
  apply (auto simp: conn_Read_def split: list.splits if_splits)
  done

declare Read_loop.simps [simp del]

definition Read :: "conn \<Rightarrow> (error + bytes) \<times> conn" where
  "Read c =
     (case conn_Read 4 c of
        (data, Some e, c') \<Rightarrow> (Inl (''failed to receive message: no length: '' @ e), c')
      | (data, None, c') \<Rightarrow>
          (let lenbuf = filled (replicate 4 0) data;
               len = Uint32 lenbuf
           in if len = 0 then (Inl ''message length is zero'', c')
              else Read_loop len 0 [] c'))"

section \<open>Socket binding (cmcd/socket.go)\<close>

subsection \<open>What a served connection does\<close>

text \<open>
  The socket binding reaches its connection through the package \<^verbatim>\<open>api\<close>
  (\<^verbatim>\<open>Receive\<close>, \<^verbatim>\<open>Send\<close>, \<^verbatim>\<open>SendError\<close>) and \<^verbatim>\<open>conn.Close\<close>, and
  everything else through collaborators. A run of a handler is the sequence of the things
  it does, in order:
  \<^item> \<open>Received r\<close>: \<^verbatim>\<open>api.Receive(conn)\<close> was called and returned \<open>r\<close>;
  \<^item> \<open>SendError fmt args\<close>: \<^verbatim>\<open>api.SendError(conn, fmt, args...)\<close>, the attempt to
    write an error response;
  \<^item> \<open>Send data t\<close>: \<^verbatim>\<open>api.Send(conn, data, t)\<close>, the attempt to write a response of
    type \<open>t\<close>;
  \<^item> \<open>Close\<close>: \<^verbatim>\<open>conn.Close()\<close>;
  \<^item> \<open>Log msg args\<close>: a call of the logger;
  \<^item> \<open>Call name\<close>: a collaborator that measures, verifies or uses a key was invoked;
  \<^item> \<open>Panic msg\<close>: a run-time panic; nothing of the handler runs after it.
\<close>

datatype arg = Err error | Str string | Bytes bytes | U32 u32

datatype event =
    Received "error + bytes \<times> u32"
  | SendError string "arg list"
  | Send bytes u32
  | Close
  | Log string "arg list"
  | Call string
  | Panic string

subsection \<open>Requests, responses, configuration\<close>

record AttestationRequest =
  Nonce :: bytes

record VerificationRequest =
  AttestationReport :: bytes
  Nonce :: bytes
  Ca :: bytes
  Policies :: bytes

record ('h, 'ps) TLSSignRequest =
  Id :: bytes
  Content :: bytes
  Hashtype :: 'h
  PssOpts :: 'ps

text \<open>The response values that the handlers build and pass to \<^verbatim>\<open>cbor.Marshal\<close>.\<close>

datatype response =
    AttestationResponse bytes
  | VerificationResponse bytes
  | TLSSignResponse bytes
  | TLSCertResponse "bytes list"

text \<open>
  \<^verbatim>\<open>ServerConfig\<close>: the fields the handlers read. \<open>Signer\<close> is an interface value and
  may be nil (\<open>None\<close>). The types of the other fields belong to the collaborators.
\<close>

record ('md, 'mi, 'ser, 'pe, 'sg) ServerConfig =
  Network :: string
  Metadata :: 'md
  MeasurementInterfaces :: 'mi
  Serializer :: 'ser
  PolicyEngineSelect :: 'pe
  Signer :: "'sg option"

text \<open>
  The collaborators of the socket binding, taken as parameters: the request type constants
  of \<^verbatim>\<open>api\<close>, the CBOR and JSON codecs, the report engine \<^verbatim>\<open>ar\<close>, the signer's
  methods, \<^verbatim>\<open>api.HashToSignerOpts\<close> and \<^verbatim>\<open>internal.WriteCertsPem\<close>.
  \<open>crypto_Signer k\<close> is the type assertion \<^verbatim>\<open>k.(crypto.Signer)\<close>: \<open>None\<close> when the key
  is no signer, else its \<^verbatim>\<open>Sign\<close> with \<^verbatim>\<open>rand.Reader\<close>. \<open>fmt_Sprint\<close> is how the
  logger prints signer options. \<^verbatim>\<open>GetSigningKeys\<close> also returns a public key, which
  the binding discards.
\<close>

record ('md, 'mi, 'ser, 'pe, 'sg, 'rep, 'res, 'h, 'ps, 'opts, 'key, 'chain) socket_env =
  TypeAttest :: u32
  TypeVerify :: u32
  TypeTLSCert :: u32
  TypeTLSSign :: u32
  cbor_Unmarshal_AttestationRequest :: "bytes \<Rightarrow> error + AttestationRequest"
  cbor_Unmarshal_VerificationRequest :: "bytes \<Rightarrow> error + VerificationRequest"
  cbor_Unmarshal_TLSSignRequest :: "bytes \<Rightarrow> error + ('h, 'ps) TLSSignRequest"
  cbor_Marshal :: "response \<Rightarrow> error + bytes"
  json_Marshal :: "'res \<Rightarrow> error + bytes"
  ar_Generate :: "bytes \<Rightarrow> 'md \<Rightarrow> 'mi \<Rightarrow> 'ser \<Rightarrow> error + 'rep"
  ar_Sign :: "'rep \<Rightarrow> 'sg \<Rightarrow> 'ser \<Rightarrow> error + bytes"
  ar_Verify :: "bytes \<Rightarrow> bytes \<Rightarrow> bytes \<Rightarrow> bytes \<Rightarrow> 'pe \<Rightarrow> 'ser \<Rightarrow> 'res"
  HashToSignerOpts :: "'h \<Rightarrow> 'ps \<Rightarrow> error + 'opts"
  GetSigningKeys :: "'sg \<Rightarrow> error + 'key"
  crypto_Signer :: "'key \<Rightarrow> (bytes \<Rightarrow> 'opts \<Rightarrow> error + bytes) option"
  GetCertChain :: "'sg \<Rightarrow> 'chain"
  internal_WriteCertsPem :: "'chain \<Rightarrow> bytes list"
  fmt_Sprint :: "'opts \<Rightarrow> string"

text \<open>\<^verbatim>\<open>hex.EncodeToString\<close>: two lower-case digits for each byte.\<close>

definition hex_EncodeToString :: "bytes \<Rightarrow> string" where
  "hex_EncodeToString bs =
     concat (map (\<lambda>b. [''0123456789abcdef'' ! (unat b div 16),
                         ''0123456789abcdef'' ! (unat b mod 16)]) bs)"

text \<open>The panic of a method call on a nil interface value, and of a failed type assertion.\<close>

definition nil_dereference :: string where
  "nil_dereference = ''runtime error: invalid memory address or nil pointer dereference''"

definition interface_conversion :: string where
  "interface_conversion = ''interface conversion''"

subsection \<open>The handlers\<close>

definition attest where
  "attest env conf payload =
     Log ''Prover: Received attestation request'' [] #
     (case cbor_Unmarshal_AttestationRequest env payload of
        Inl err \<Rightarrow> [SendError ''failed to unmarshal attestation request: %v'' [Err err]]
      | Inr req \<Rightarrow>
          Log ''Prover: Generating Attestation Report with nonce: %v''
              [Str (hex_EncodeToString (AttestationRequest.Nonce req))] #
          Call ''ar.Generate'' #
          (case ar_Generate env (AttestationRequest.Nonce req) (Metadata conf)
                  (MeasurementInterfaces conf) (Serializer conf) of
             Inl err \<Rightarrow> [SendError ''failed to generate attestation report: %v'' [Err err]]
           | Inr report \<Rightarrow>
               (case Signer conf of
                  None \<Rightarrow>
                    [SendError
                       ''Failed to sign attestation report: No valid signer specified in config'' []]
                | Some signer \<Rightarrow>
                    Log ''Prover: Signing Attestation Report'' [] #
                    Call ''ar.Sign'' #
                    (case ar_Sign env report signer (Serializer conf) of
                       Inl err \<Rightarrow> [SendError ''Failed to sign attestation report: %v'' [Err err]]
                     | Inr r \<Rightarrow>
                         (case cbor_Marshal env (AttestationResponse r) of
                            Inl err \<Rightarrow> [SendError ''failed to marshal message: %v'' [Err err]]
                          | Inr data \<Rightarrow>
                              [Send data (TypeAttest env), Log ''Prover: Finished'' []])))))"

text \<open>
  \<^verbatim>\<open>string(req.AttestationReport)\<close> keeps the bytes, so the report is handed to
  \<^verbatim>\<open>ar.Verify\<close> as it is. The result of \<^verbatim>\<open>ar.Verify\<close> is never inspected.
\<close>

definition verify where
  "verify env conf payload =
     Log (''Received Connection Request Type '' @ [CHR 0x27] @ ''Verification Request'' @ [CHR 0x27]) [] #
     (case cbor_Unmarshal_VerificationRequest env payload of
        Inl err \<Rightarrow> [SendError ''Failed to unmarshal verification request: %v'' [Err err]]
      | Inr req \<Rightarrow>
          Log ''Verifier: Verifying Attestation Report'' [] #
          Call ''ar.Verify'' #
          (let result = ar_Verify env (AttestationReport req) (VerificationRequest.Nonce req)
                          (Ca req) (Policies req) (PolicyEngineSelect conf) (Serializer conf)
           in Log ''Verifier: Marshaling Attestation Result'' [] #
              (case json_Marshal env result of
                 Inl err \<Rightarrow>
                   [SendError ''Verifier: failed to marshal Attestation Result: %v'' [Err err]]
               | Inr r \<Rightarrow>
                   (case cbor_Marshal env (VerificationResponse r) of
                      Inl err \<Rightarrow> [SendError ''failed to marshal message: %v'' [Err err]]
                    | Inr data \<Rightarrow>
                        [Send data (TypeVerify env), Log ''Verifier: Finished'' []]))))"

text \<open>
  \<^verbatim>\<open>tlssign\<close> and \<^verbatim>\<open>tlscert\<close> call methods of \<^verbatim>\<open>conf.Signer\<close> without the
  nil check that \<^verbatim>\<open>attest\<close> makes: on a nil signer the call panics.
\<close>

definition tlssign where
  "tlssign env conf payload =
     Log ''Received TLS sign request'' [] #
     (case cbor_Unmarshal_TLSSignRequest env payload of
        Inl err \<Rightarrow> [SendError ''failed to unmarshal payload: %v'' [Err err]]
      | Inr req \<Rightarrow>
          (case HashToSignerOpts env (Hashtype req) (PssOpts req) of
             Inl err \<Rightarrow> [SendError ''failed to choose requested hash function: %v'' [Err err]]
           | Inr opts \<Rightarrow>
               (case Signer conf of
                  None \<Rightarrow> [Panic nil_dereference]
                | Some signer \<Rightarrow>
                    Call ''Signer.GetSigningKeys'' #
                    (case GetSigningKeys env signer of
                       Inl err \<Rightarrow> [SendError ''failed to get IK: %v'' [Err err]]
                     | Inr tlsKeyPriv \<Rightarrow>
                         Log ''TLSSign using opts: '' [Str (fmt_Sprint env opts)] #
                         (case crypto_Signer env tlsKeyPriv of
                            None \<Rightarrow> [Panic interface_conversion]
                          | Some Sign \<Rightarrow>
                              Call ''crypto.Signer.Sign'' #
                              (case Sign (Content req) opts of
                                 Inl err \<Rightarrow> [SendError ''failed to sign: %v'' [Err err]]
                               | Inr signature \<Rightarrow>
                                   (case cbor_Marshal env (TLSSignResponse signature) of
                                      Inl err \<Rightarrow>
                                        [SendError ''failed to marshal message: %v'' [Err err]]
                                    | Inr data \<Rightarrow>
                                        [Send data (TypeTLSSign env),
                                         Log ''Performed signing'' []])))))))"

text \<open>\<^verbatim>\<open>tlscert\<close> parses its payload as a \<^verbatim>\<open>TLSSignRequest\<close> and reads its \<^verbatim>\<open>Id\<close>.\<close>

definition tlscert where
  "tlscert env conf payload =
     Log ''Received TLS cert request'' [] #
     (case cbor_Unmarshal_TLSSignRequest env payload of
        Inl err \<Rightarrow> [SendError ''failed to unmarshal payload: %v'' [Err err]]
      | Inr req \<Rightarrow>
          Log ''Received TLS cert request with ID %v'' [Bytes (Id req)] #
          (case Signer conf of
             None \<Rightarrow> [Panic nil_dereference]
           | Some signer \<Rightarrow>
               Call ''Signer.GetCertChain'' #
               (let certChain = GetCertChain env signer
                in case cbor_Marshal env (TLSCertResponse (internal_WriteCertsPem env certChain)) of
                     Inl err \<Rightarrow> [SendError ''failed to marshal message: %v'' [Err err]]
                   | Inr data \<Rightarrow>
                       [Send data (TypeTLSCert env), Log ''Obtained TLS cert'' []])))"

text \<open>
  \<^verbatim>\<open>handleIncoming\<close>: \<open>rcv\<close> is what \<^verbatim>\<open>api.Receive(conn)\<close> returns on this
  connection. The deferred \<^verbatim>\<open>conn.Close()\<close> runs last, also after a panic.
\<close>

definition handleIncoming where
  "handleIncoming env conf rcv =
     Received rcv #
     (case rcv of
        Inl err \<Rightarrow> [SendError ''Failed to receive: %v'' [Err err]]
      | Inr (payload, reqType) \<Rightarrow>
          (if reqType = TypeAttest env then attest env conf payload
           else if reqType = TypeVerify env then verify env conf payload
           else if reqType = TypeTLSCert env then tlscert env conf payload
           else if reqType = TypeTLSSign env then tlssign env conf payload
           else [SendError ''Invalid Type: %v'' [U32 reqType]]))
     @ [Close]"

text \<open>What a run shows to the peer and to an observer of the process.\<close>

fun is_response :: "event \<Rightarrow> bool" where
  "is_response (SendError _ _) = True"
| "is_response (Send _ _) = True"
| "is_response _ = False"


fun is_Log :: "event \<Rightarrow> bool" where
  "is_Log (Log _ _) = True"
| "is_Log _ = False"





definition responses :: "event list \<Rightarrow> event list" where
  "responses tr = filter is_response tr"

definition without_logs :: "event list \<Rightarrow> event list" where
  "without_logs tr = filter (\<lambda>e. \<not> is_Log e) tr"

section \<open>Remote-procedure binding (cmcd/api.go)\<close>

datatype Status = Status_OK | Status_FAIL

text \<open>The server: \<^verbatim>\<open>TLSCert\<close> is compared with nil, so it is optional.\<close>

record server_certs =
  Ak :: bytes
  DeviceSubCa :: bytes
  Ca :: bytes
  TLSCert :: "bytes option"

record server_config =
  UseIma :: bool
  ImaPcr :: "32 word"

record ('pcrs, 'md, 'tpm, 'roles) server =
  pcrs :: 'pcrs
  certs :: server_certs
  config :: server_config
  metadata :: 'md
  tpm :: 'tpm
  roles :: 'roles

record TpmCerts =
  AkCert :: bytes
  Intermediates :: "bytes list"
  CaCert :: bytes

record 'pcrs TpmParams =
  Nonce :: bytes
  Pcrs :: 'pcrs
  Certs :: TpmCerts
  UseIma :: bool
  ImaPcr :: "32 word"

text \<open>The messages of the generated interface \<^verbatim>\<open>ci\<close>, with the fields this file uses.\<close>

record ci_AttestationRequest =
  Nonce :: bytes

record ci_VerificationRequest =
  AttestationReport :: bytes
  Nonce :: bytes

record ('h, 'ps) ci_TLSSignRequest =
  Hashtype :: 'h
  PssOpts :: 'ps
  Content :: bytes

record ci_AttestationResponse =
  Status :: Status
  AttestationReport :: bytes

record ci_VerificationResponse =
  Status :: Status
  VerificationResult :: bytes

record ci_TLSSignResponse =
  Status :: Status
  SignedContent :: bytes

record ci_TLSCertResponse =
  Status :: Status
  Certificate :: "bytes list"

text \<open>
  The collaborators of this binding, as parameters: the report engine \<^verbatim>\<open>ar\<close>,
  \<^verbatim>\<open>tpmdriver.GetTLSKey\<close>, \<^verbatim>\<open>json.Marshal\<close>, \<^verbatim>\<open>convertHash\<close> and the type
  assertion to \<^verbatim>\<open>crypto.Signer\<close> with its \<^verbatim>\<open>Sign\<close>. \<^verbatim>\<open>ar.Sign\<close> takes the
  lock of the measurement driver, passed here as the driver itself.
\<close>

record ('pcrs, 'md, 'tpm, 'roles, 'rep, 'res, 'h, 'ps, 'opts, 'key, 'pub) grpc_env =
  ar_Generate :: "bytes \<Rightarrow> 'md \<Rightarrow> 'tpm list \<Rightarrow> 'pcrs TpmParams list \<Rightarrow> 'rep"
  GetTLSKey :: "error + 'key \<times> 'pub"
  ar_Sign :: "'tpm \<Rightarrow> 'rep \<Rightarrow> 'key \<Rightarrow> 'pub \<Rightarrow> bytes list \<Rightarrow> bool \<times> bytes"
  ar_Verify :: "bytes \<Rightarrow> bytes \<Rightarrow> bytes \<Rightarrow> 'roles \<Rightarrow> 'res"
  json_Marshal :: "'res \<Rightarrow> error + bytes"
  convertHash :: "'h \<Rightarrow> 'ps \<Rightarrow> error + 'opts"
  crypto_Signer :: "'key \<Rightarrow> (bytes \<Rightarrow> 'opts \<Rightarrow> error + bytes) option"

text \<open>A byte slice that may be nil, read as bytes: the nil slice has none.\<close>

definition slice :: "bytes option \<Rightarrow> bytes" where
  "slice b = (case b of None \<Rightarrow> [] | Some bs \<Rightarrow> bs)"

text \<open>
  Each method returns a response pointer and an error, both of which may be nil
  (\<open>None\<close>). Fields that the code leaves unset hold their zero value. The log lines of this
  file do not influence what is returned and are not part of the model.
\<close>

text \<open>The locals \<^verbatim>\<open>tpmParams\<close> and \<^verbatim>\<open>certsPem\<close> of \<^verbatim>\<open>Attest\<close>.\<close>

definition Attest_tpmParams where
  "Attest_tpmParams s inp =
     \<lparr>TpmParams.Nonce = ci_AttestationRequest.Nonce inp,
      Pcrs = pcrs s,
      Certs = \<lparr>AkCert = Ak (certs s),
               Intermediates = [DeviceSubCa (certs s)],
               CaCert = server_certs.Ca (certs s)\<rparr>,
      UseIma = server_config.UseIma (config s),
      ImaPcr = server_config.ImaPcr (config s)\<rparr>"

definition Attest_certsPem where
  "Attest_certsPem s = [slice (TLSCert (certs s)), DeviceSubCa (certs s), server_certs.Ca (certs s)]"

definition Attest where
  "Attest env s inp =
     (let tpmParams = Attest_tpmParams s inp;
          a = grpc_env.ar_Generate env (ci_AttestationRequest.Nonce inp) (metadata s) [tpm s]
                [tpmParams]
      in case GetTLSKey env of
           Inl err \<Rightarrow>
             (Some \<lparr>ci_AttestationResponse.Status = Status_FAIL, AttestationReport = []\<rparr>, None)
         | Inr (tlsKeyPriv, tlsKeyPub) \<Rightarrow>
             (let certsPem = Attest_certsPem s;
                  (ok, data) = grpc_env.ar_Sign env (tpm s) a tlsKeyPriv tlsKeyPub certsPem;
                  status = (if \<not> ok then Status_FAIL else Status_OK)
              in (Some \<lparr>ci_AttestationResponse.Status = status, AttestationReport = data\<rparr>,
                  None :: error option)))"

definition Verify where
  "Verify env s inp =
     (let result = grpc_env.ar_Verify env (ci_VerificationRequest.AttestationReport inp)
                     (ci_VerificationRequest.Nonce inp) (server_certs.Ca (certs s)) (roles s);
          (status, data) = (case grpc_env.json_Marshal env result of
                              Inl err \<Rightarrow> (Status_FAIL, [])
                            | Inr data \<Rightarrow> (Status_OK, data))
      in (Some \<lparr>ci_VerificationResponse.Status = status, VerificationResult = data\<rparr>,
          None :: error option))"

text \<open>\<^verbatim>\<open>TLSSign\<close> can panic at the type assertion; the other methods cannot.\<close>

datatype 'a call = Returned 'a | Panicked string

definition TLSSign where
  "TLSSign env s inp =
     (case convertHash env (ci_TLSSignRequest.Hashtype inp) (ci_TLSSignRequest.PssOpts inp) of
        Inl err \<Rightarrow>
          Returned (Some \<lparr>ci_TLSSignResponse.Status = Status_FAIL, SignedContent = []\<rparr>,
                    Some ''Prover: Failed to find appropriate hash function'')
      | Inr opts \<Rightarrow>
          (case GetTLSKey env of
             Inl err \<Rightarrow>
               Returned (Some \<lparr>ci_TLSSignResponse.Status = Status_FAIL, SignedContent = []\<rparr>,
                         Some ''Prover: Failed to get TLS key'')
           | Inr (tlsKeyPriv, _) \<Rightarrow>
               (case grpc_env.crypto_Signer env tlsKeyPriv of
                  None \<Rightarrow> Panicked interface_conversion
                | Some Sign \<Rightarrow>
                    (case Sign (ci_TLSSignRequest.Content inp) opts of
                       Inl err \<Rightarrow>
                         Returned (Some \<lparr>ci_TLSSignResponse.Status = Status_FAIL,
                                          SignedContent = []\<rparr>,
                                   Some ''Prover: Failed to perform Signing operation'')
                     | Inr signature \<Rightarrow>
                         Returned (Some \<lparr>ci_TLSSignResponse.Status = Status_OK,
                                          SignedContent = signature\<rparr>,
                                   None)))))"

definition TLSCert_rpc where
  "TLSCert_rpc s inp =
     (case TLSCert (certs s) of
        None \<Rightarrow>
          (Some \<lparr>ci_TLSCertResponse.Status = Status_FAIL, Certificate = []\<rparr>,
           Some ''No TLS Certificate obtained'')
      | Some cert \<Rightarrow>
          (Some \<lparr>ci_TLSCertResponse.Status = Status_OK,
                  Certificate = [cert, DeviceSubCa (certs s)]\<rparr>,
           None))"

section \<open>Concrete connections, collaborators and configurations\<close>


definition incoming :: "bytes list \<Rightarrow> conn" where
  "incoming segs = \<lparr>pending = segs, closing = ''EOF'', reads = 0, written = [], wfail = None\<rparr>"

text \<open>
  Simple collaborators for the socket binding: every codec rejects the empty input and
  accepts the rest, the report is the nonce, the verdict of a verification is whether the
  report is the byte 1, signing returns the content, and the certificate chain is fixed.
\<close>

definition demo_env ::
  "(unit, unit, unit, unit, unit, bytes, bool, unit, unit, unit, unit, bytes list) socket_env" where
  "demo_env =
     \<lparr>TypeAttest = 1, TypeVerify = 2, TypeTLSCert = 4, TypeTLSSign = 3,
      cbor_Unmarshal_AttestationRequest =
        (\<lambda>p. if p = [] then Inl ''EOF'' else Inr \<lparr>AttestationRequest.Nonce = p\<rparr>),
      cbor_Unmarshal_VerificationRequest =
        (\<lambda>p. if p = [] then Inl ''EOF''
             else Inr \<lparr>VerificationRequest.AttestationReport = p,
                       VerificationRequest.Nonce = [], VerificationRequest.Ca = [],
                       Policies = []\<rparr>),
      cbor_Unmarshal_TLSSignRequest =
        (\<lambda>p. if p = [] then Inl ''EOF''
             else Inr \<lparr>Id = p, TLSSignRequest.Content = [], TLSSignRequest.Hashtype = (),
                       TLSSignRequest.PssOpts = ()\<rparr>),
      cbor_Marshal =
        (\<lambda>r. case r of
                AttestationResponse b \<Rightarrow> Inr b
              | VerificationResponse b \<Rightarrow> Inr b
              | TLSSignResponse b \<Rightarrow> Inr b
              | TLSCertResponse bs \<Rightarrow> Inr (concat bs)),
      socket_env.json_Marshal = (\<lambda>verdict. Inr [if verdict then 1 else 0]),
      socket_env.ar_Generate = (\<lambda>nonce md mi ser. Inr nonce),
      socket_env.ar_Sign = (\<lambda>report signer ser. Inr report),
      socket_env.ar_Verify = (\<lambda>report nonce ca policies pe ser. report = [1]),
      HashToSignerOpts = (\<lambda>h ps. Inr ()),
      GetSigningKeys = (\<lambda>signer. Inr ()),
      socket_env.crypto_Signer = (\<lambda>key. Some (\<lambda>content opts. Inr content)),
      GetCertChain = (\<lambda>signer. [[1, 2, 3]]),
      internal_WriteCertsPem = (\<lambda>chain. chain),
      fmt_Sprint = (\<lambda>opts. ''opts'')\<rparr>"

definition demo_conf :: "(unit, unit, unit, unit, unit) ServerConfig" where
  "demo_conf =
     \<lparr>Network = ''unix'', Metadata = (), MeasurementInterfaces = (), Serializer = (),
      PolicyEngineSelect = (), Signer = Some ()\<rparr>"

text \<open>
  Simple collaborators for the remote-procedure binding: the key is there, signing the
  report succeeds, the verdict of a verification is whether the report is the byte 1.
\<close>

definition demo_rpc ::
  "(unit, unit, unit, unit, unit, bool, unit, unit, unit, unit, unit) grpc_env" where
  "demo_rpc =
     \<lparr>grpc_env.ar_Generate = (\<lambda>nonce md ms ps. ()),
      GetTLSKey = Inr ((), ()),
      grpc_env.ar_Sign = (\<lambda>mu a priv pub certs. (True, [7])),
      grpc_env.ar_Verify = (\<lambda>report nonce ca roles. report = [1]),
      grpc_env.json_Marshal = (\<lambda>verdict. Inr [if verdict then 1 else 0]),
      convertHash = (\<lambda>h ps. Inr ()),
      grpc_env.crypto_Signer = (\<lambda>key. Some (\<lambda>content opts. Inr content))\<rparr>"

definition demo_server :: "(unit, unit, unit, unit) server" where
  "demo_server =
     \<lparr>pcrs = (),
      certs = \<lparr>Ak = [1], DeviceSubCa = [2], server_certs.Ca = [3], TLSCert = Some [4]\<rparr>,
      config = \<lparr>server_config.UseIma = False, server_config.ImaPcr = 10\<rparr>,
      metadata = (), tpm = (), roles = ()\<rparr>"

section \<open>Properties of the frame codec\<close>











lemma PutUint32_Uint32: "PutUint32 (Uint32 [b0, b1, b2, b3]) = [b0, b1, b2, b3]"
  unfolding PutUint32_def Uint32.simps list.inject
  by (intro conjI bit_word_eqI) (auto simp: bit_simps dest: bit_imp_le_length)

lemma Uint32_zero:
  assumes "Uint32 bs = 0" and "length bs = 4"
  shows "bs = replicate 4 0"
proof -
  obtain b0 b1 b2 b3 where bs: "bs = [b0, b1, b2, b3]"
    using assms(2) by (auto simp: length_Suc_conv numeral_eq_Suc)
  have "PutUint32 (Uint32 bs) = bs"
    unfolding bs by (rule PutUint32_Uint32)
  then show ?thesis
    using assms(1) by (simp add: PutUint32_def numeral_eq_Suc)
qed

text \<open>
  C2. For every stream whose first four bytes decode to the length 0, \<^verbatim>\<open>Read\<close> returns
  the error ``message length is zero'': it returns (the function is total), the result is
  an error and no message, and the connection is left as the one read of the prefix left
  it, so no read of a payload was attempted.
\<close>

theorem zero_length_rejected:
  assumes "4 \<le> length (concat (pending c))"
    and "Uint32 (take 4 (concat (pending c))) = 0"
  shows "fst (Read c) = Inl ''message length is zero''
         \<and> snd (Read c) = snd (snd (conn_Read 4 c))
         \<and> reads (snd (Read c)) = Suc (reads c)"
proof -
  have zeros: "take 4 (concat (pending c)) = replicate 4 0"
    using assms by (intro Uint32_zero) simp_all
  have "concat (pending c) \<noteq> []"
    using assms(1) by (auto simp del: concat_eq_Nil_conv)
  then obtain seg rest where pc: "pending c = seg # rest"
    by (cases "pending c") auto
  obtain data c' where rd: "conn_Read 4 c = (data, None, c')" and data: "data = take 4 seg"
    and rc: "reads c' = Suc (reads c)"
    using pc by (simp add: conn_Read_def)
  have "take 4 (concat (pending c)) = data @ take (4 - length seg) (concat rest)"
    using pc data by simp
  then have "data @ take (4 - length seg) (concat rest)
               = replicate (length data) 0 @ replicate (4 - length data) 0"
    using zeros data by (simp add: replicate_add [symmetric])
  then have "data = replicate (length data) 0"
    by simp
  moreover have "length data \<le> 4"
    using data by simp
  ultimately obtain n where dn: "data = replicate n 0" and n4: "n \<le> 4"
    by blast
  have "filled (replicate 4 0) data = replicate 4 0"
    using n4 by (simp add: dn filled_def replicate_add [symmetric])
  then show ?thesis
    using rd rc by (simp add: Read_def numeral_eq_Suc)
qed

text \<open>The theorem at a stream whose zero prefix arrives in two portions.\<close>

theorem zero_length_rejected_witness:
  "fst (Read (incoming [[0, 0], [0, 0, 65, 66]])) = Inl ''message length is zero''
   \<and> pending (snd (Read (incoming [[0, 0], [0, 0, 65, 66]]))) = [[0, 0, 65, 66]]
   \<and> reads (snd (Read (incoming [[0, 0], [0, 0, 65, 66]]))) = 1"
  using zero_length_rejected [of "incoming [[0, 0], [0, 0, 65, 66]]"]
  by (simp add: incoming_def conn_Read_def)

text \<open>
  C3 does not hold of the code. With two frames in one portion, \<^verbatim>\<open>Read\<close> takes the
  bytes of the second frame into the first payload read, never sees its count equal the
  announced length 1, reads on to the end of the stream and fails: all 10 bytes are
  consumed for a frame of 5. With one frame arriving in portions of 3 and 2 bytes, the
  length is taken from the first 3 bytes: the frame of length 1 is rejected as of length 0.
\<close>

theorem Read_not_byte_exact:
  "Read (incoming [Write_buf [65] @ Write_buf [66]])
     = (Inl ''failed to receive message: EOF'', (incoming [])\<lparr>reads := 3\<rparr>)
   \<and> Read (incoming [[0, 0, 0], [1, 65]])
     = (Inl ''message length is zero'', (incoming [[1, 65]])\<lparr>reads := 1\<rparr>)"
  by (simp add: incoming_def Write_buf_def PutUint32_def Read_def conn_Read_def filled_def
      Read_loop.simps)

section \<open>Properties of the socket binding\<close>

text \<open>
  C5. For every received request whose type is none of \<^verbatim>\<open>TypeAttest\<close>,
  \<^verbatim>\<open>TypeVerify\<close>, \<^verbatim>\<open>TypeTLSCert\<close> and \<^verbatim>\<open>TypeTLSSign\<close>, the run of
  \<^verbatim>\<open>handleIncoming\<close> is: the receive, one error response that names the invalid type,
  the close. No handler logs or calls anything, and nothing panics.
\<close>

theorem unknown_tag_rejected:
  assumes "reqType \<noteq> TypeAttest env" and "reqType \<noteq> TypeVerify env"
    and "reqType \<noteq> TypeTLSCert env" and "reqType \<noteq> TypeTLSSign env"
  shows "handleIncoming env conf (Inr (payload, reqType))
           = [Received (Inr (payload, reqType)), SendError ''Invalid Type: %v'' [U32 reqType], Close]"
  using assms by (simp add: handleIncoming_def)

text \<open>
  The theorem at the type \<open>0xFF\<close>.
\<close>

theorem unknown_tag_rejected_witness:
  "handleIncoming demo_env demo_conf (Inr ([9], 0xFF))
     = [Received (Inr ([9], 0xFF)), SendError ''Invalid Type: %v'' [U32 0xFF], Close]"
  using unknown_tag_rejected [where reqType = "0xFF" and env = demo_env and payload = "[9]"
      and conf = demo_conf]
  by (simp add: demo_env_def)

text \<open>
  C6 (as amended). For every attestation request that unmarshals and for which the
  report is generated, handled with no signer configured, the run is: the receive, the two
  log lines, the call of \<^verbatim>\<open>ar.Generate\<close>, one error response saying that no valid
  signer is specified, the close. \<^verbatim>\<open>ar.Sign\<close> is not called and nothing panics.
\<close>

theorem attest_without_signer:
  assumes "cbor_Unmarshal_AttestationRequest env payload = Inr req"
    and "socket_env.ar_Generate env (AttestationRequest.Nonce req) (Metadata conf)
           (MeasurementInterfaces conf) (Serializer conf) = Inr report"
    and "Signer conf = None"
  shows "handleIncoming env conf (Inr (payload, TypeAttest env))
           = [Received (Inr (payload, TypeAttest env)),
              Log ''Prover: Received attestation request'' [],
              Log ''Prover: Generating Attestation Report with nonce: %v''
                  [Str (hex_EncodeToString (AttestationRequest.Nonce req))],
              Call ''ar.Generate'',
              SendError ''Failed to sign attestation report: No valid signer specified in config'' [],
              Close]"
  using assms by (simp add: handleIncoming_def attest_def)

text \<open>
  The theorem at the nonce \<open>ab cd\<close>.
\<close>

theorem attest_without_signer_witness:
  "handleIncoming demo_env (demo_conf\<lparr>Signer := None\<rparr>) (Inr ([171, 205], 1))
           = [Received (Inr ([171, 205], 1)),
              Log ''Prover: Received attestation request'' [],
              Log ''Prover: Generating Attestation Report with nonce: %v'' [Str ''abcd''],
              Call ''ar.Generate'',
              SendError ''Failed to sign attestation report: No valid signer specified in config'' [],
              Close]"
  using attest_without_signer [where env = demo_env and payload = "[171, 205]"
      and req = "\<lparr>AttestationRequest.Nonce = [171, 205]\<rparr>"
      and conf = "demo_conf\<lparr>Signer := None\<rparr>" and report = "[171, 205]"]
  by (simp add: demo_env_def demo_conf_def hex_EncodeToString_def)

text \<open>
  C6 as stated, for every well-formed request, fails where the report cannot be
  generated: with no signer configured the error response then reports the failed
  generation, not the missing signer.
\<close>

theorem attest_without_signer_counterexample:
  "Signer (demo_conf\<lparr>Signer := None\<rparr>) = None
   \<and> cbor_Unmarshal_AttestationRequest demo_env [171, 205] = Inr \<lparr>AttestationRequest.Nonce = [171, 205]\<rparr>
   \<and> responses (handleIncoming
        (demo_env\<lparr>socket_env.ar_Generate := \<lambda>nonce md mi ser. Inl ''no measurement''\<rparr>)
        (demo_conf\<lparr>Signer := None\<rparr>) (Inr ([171, 205], 1)))
       = [SendError ''failed to generate attestation report: %v'' [Err ''no measurement'']]"
  by (simp add: demo_env_def demo_conf_def handleIncoming_def attest_def responses_def)





text \<open>The error response of each failure that a handler checks for.\<close>

lemma attest_failures:
  "cbor_Unmarshal_AttestationRequest env p = Inl e \<Longrightarrow>
     responses (attest env conf p)
       = [SendError ''failed to unmarshal attestation request: %v'' [Err e]]"
  "cbor_Unmarshal_AttestationRequest env p = Inr req \<Longrightarrow>
   socket_env.ar_Generate env (AttestationRequest.Nonce req) (Metadata conf)
     (MeasurementInterfaces conf) (Serializer conf) = Inl e \<Longrightarrow>
     responses (attest env conf p)
       = [SendError ''failed to generate attestation report: %v'' [Err e]]"
  "cbor_Unmarshal_AttestationRequest env p = Inr req \<Longrightarrow>
   socket_env.ar_Generate env (AttestationRequest.Nonce req) (Metadata conf)
     (MeasurementInterfaces conf) (Serializer conf) = Inr report \<Longrightarrow>
   Signer conf = Some signer \<Longrightarrow>
   socket_env.ar_Sign env report signer (Serializer conf) = Inl e \<Longrightarrow>
     responses (attest env conf p)
       = [SendError ''Failed to sign attestation report: %v'' [Err e]]"
  "cbor_Unmarshal_AttestationRequest env p = Inr req \<Longrightarrow>
   socket_env.ar_Generate env (AttestationRequest.Nonce req) (Metadata conf)
     (MeasurementInterfaces conf) (Serializer conf) = Inr report \<Longrightarrow>
   Signer conf = Some signer \<Longrightarrow>
   socket_env.ar_Sign env report signer (Serializer conf) = Inr r \<Longrightarrow>
   cbor_Marshal env (AttestationResponse r) = Inl e \<Longrightarrow>
     responses (attest env conf p) = [SendError ''failed to marshal message: %v'' [Err e]]"
  by (simp_all add: attest_def responses_def)

lemma verify_failures:
  "cbor_Unmarshal_VerificationRequest env p = Inl e \<Longrightarrow>
     responses (verify env conf p)
       = [SendError ''Failed to unmarshal verification request: %v'' [Err e]]"
  "cbor_Unmarshal_VerificationRequest env p = Inr req \<Longrightarrow>
   socket_env.json_Marshal env
     (socket_env.ar_Verify env (VerificationRequest.AttestationReport req)
        (VerificationRequest.Nonce req) (VerificationRequest.Ca req) (Policies req)
        (PolicyEngineSelect conf) (Serializer conf)) = Inl e \<Longrightarrow>
     responses (verify env conf p)
       = [SendError ''Verifier: failed to marshal Attestation Result: %v'' [Err e]]"
  "cbor_Unmarshal_VerificationRequest env p = Inr req \<Longrightarrow>
   socket_env.json_Marshal env
     (socket_env.ar_Verify env (VerificationRequest.AttestationReport req)
        (VerificationRequest.Nonce req) (VerificationRequest.Ca req) (Policies req)
        (PolicyEngineSelect conf) (Serializer conf)) = Inr r \<Longrightarrow>
   cbor_Marshal env (VerificationResponse r) = Inl e \<Longrightarrow>
     responses (verify env conf p) = [SendError ''failed to marshal message: %v'' [Err e]]"
  by (simp_all add: verify_def responses_def)

lemma tlssign_failures:
  "cbor_Unmarshal_TLSSignRequest env p = Inl e \<Longrightarrow>
     responses (tlssign env conf p) = [SendError ''failed to unmarshal payload: %v'' [Err e]]"
  "cbor_Unmarshal_TLSSignRequest env p = Inr req \<Longrightarrow>
   HashToSignerOpts env (TLSSignRequest.Hashtype req) (TLSSignRequest.PssOpts req) = Inl e \<Longrightarrow>
     responses (tlssign env conf p)
       = [SendError ''failed to choose requested hash function: %v'' [Err e]]"
  "cbor_Unmarshal_TLSSignRequest env p = Inr req \<Longrightarrow>
   HashToSignerOpts env (TLSSignRequest.Hashtype req) (TLSSignRequest.PssOpts req) = Inr opts \<Longrightarrow>
   Signer conf = Some signer \<Longrightarrow>
   GetSigningKeys env signer = Inl e \<Longrightarrow>
     responses (tlssign env conf p) = [SendError ''failed to get IK: %v'' [Err e]]"
  "cbor_Unmarshal_TLSSignRequest env p = Inr req \<Longrightarrow>
   HashToSignerOpts env (TLSSignRequest.Hashtype req) (TLSSignRequest.PssOpts req) = Inr opts \<Longrightarrow>
   Signer conf = Some signer \<Longrightarrow>
   GetSigningKeys env signer = Inr key \<Longrightarrow>
   socket_env.crypto_Signer env key = Some Sign \<Longrightarrow>
   Sign (TLSSignRequest.Content req) opts = Inl e \<Longrightarrow>
     responses (tlssign env conf p) = [SendError ''failed to sign: %v'' [Err e]]"
  "cbor_Unmarshal_TLSSignRequest env p = Inr req \<Longrightarrow>
   HashToSignerOpts env (TLSSignRequest.Hashtype req) (TLSSignRequest.PssOpts req) = Inr opts \<Longrightarrow>
   Signer conf = Some signer \<Longrightarrow>
   GetSigningKeys env signer = Inr key \<Longrightarrow>
   socket_env.crypto_Signer env key = Some Sign \<Longrightarrow>
   Sign (TLSSignRequest.Content req) opts = Inr signature \<Longrightarrow>
   cbor_Marshal env (TLSSignResponse signature) = Inl e \<Longrightarrow>
     responses (tlssign env conf p) = [SendError ''failed to marshal message: %v'' [Err e]]"
  by (simp_all add: tlssign_def responses_def)

lemma tlscert_failures:
  "cbor_Unmarshal_TLSSignRequest env p = Inl e \<Longrightarrow>
     responses (tlscert env conf p) = [SendError ''failed to unmarshal payload: %v'' [Err e]]"
  "cbor_Unmarshal_TLSSignRequest env p = Inr req \<Longrightarrow>
   Signer conf = Some signer \<Longrightarrow>
   cbor_Marshal env (TLSCertResponse (internal_WriteCertsPem env (GetCertChain env signer))) = Inl e \<Longrightarrow>
     responses (tlscert env conf p) = [SendError ''failed to marshal message: %v'' [Err e]]"
  by (simp_all add: tlscert_def responses_def)











text \<open>
  The runs that C7 and C8 leave out: with no signer configured, \<^verbatim>\<open>tlscert\<close> and
  \<^verbatim>\<open>tlssign\<close> panic at the method call on the nil signer and attempt no response.
\<close>

lemma tls_handlers_without_signer:
  assumes "cbor_Unmarshal_TLSSignRequest env payload = Inr req" and "Signer conf = None"
  shows "tlscert env conf payload
           = [Log ''Received TLS cert request'' [],
              Log ''Received TLS cert request with ID %v'' [Bytes (Id req)],
              Panic nil_dereference]"
    and "HashToSignerOpts env (TLSSignRequest.Hashtype req) (TLSSignRequest.PssOpts req) = Inr opts
         \<Longrightarrow> tlssign env conf payload = [Log ''Received TLS sign request'' [], Panic nil_dereference]"
  using assms by (simp_all add: tlscert_def tlssign_def)

text \<open>
  C9. For every two certificate requests that unmarshal and differ only in their
  \<^verbatim>\<open>Id\<close>, handled under the same configuration and collaborators, \<^verbatim>\<open>tlscert\<close>
  attempts the same responses, and its runs are the same once the log lines are left out.
\<close>

theorem tlscert_ignores_id:
  assumes "cbor_Unmarshal_TLSSignRequest env p1 = Inr r1"
    and "cbor_Unmarshal_TLSSignRequest env p2 = Inr r2"
    and "r2 = r1\<lparr>Id := i\<rparr>"
  shows "responses (tlscert env conf p1) = responses (tlscert env conf p2)
         \<and> without_logs (tlscert env conf p1) = without_logs (tlscert env conf p2)"
  using assms(1,2)
  by (simp add: tlscert_def responses_def without_logs_def Let_def split: sum.splits option.splits)

text \<open>
  The theorem at two requests with the ids \<open>01\<close> and \<open>02 02\<close>.
\<close>

theorem tlscert_ignores_id_witness:
  "responses (tlscert demo_env demo_conf [1]) = [Send [1, 2, 3] 4]
   \<and> responses (tlscert demo_env demo_conf [2, 2]) = [Send [1, 2, 3] 4]
   \<and> without_logs (tlscert demo_env demo_conf [1]) = without_logs (tlscert demo_env demo_conf [2, 2])"
proof -
  let ?r1 = "\<lparr>Id = [1], TLSSignRequest.Content = [], TLSSignRequest.Hashtype = (),
               TLSSignRequest.PssOpts = ()\<rparr>"
  have u1: "cbor_Unmarshal_TLSSignRequest demo_env [1] = Inr ?r1"
    by (simp add: demo_env_def)
  have u2: "cbor_Unmarshal_TLSSignRequest demo_env [2, 2] = Inr (?r1\<lparr>Id := [2, 2]\<rparr>)"
    by (simp add: demo_env_def)
  have same: "without_logs (tlscert demo_env demo_conf [1])
                = without_logs (tlscert demo_env demo_conf [2, 2])"
    using tlscert_ignores_id [OF u1 u2 refl, of demo_conf] by simp
  have "Signer demo_conf = Some ()"
    by (simp add: demo_conf_def)
  moreover have "cbor_Marshal demo_env (TLSCertResponse (internal_WriteCertsPem demo_env
                   (GetCertChain demo_env ()))) = Inr [1, 2, 3]"
    and "TypeTLSCert demo_env = 4"
    by (simp_all add: demo_env_def)
  ultimately have "responses (tlscert demo_env demo_conf [1]) = [Send [1, 2, 3] 4]"
    and "responses (tlscert demo_env demo_conf [2, 2]) = [Send [1, 2, 3] 4]"
    using u1 u2 by (simp_all add: tlscert_def responses_def)
  then show ?thesis
    using same by simp
qed

section \<open>Properties of both bindings\<close>

text \<open>
  C4. For every verification request that unmarshals and whose result marshals (in the
  socket binding: \<^verbatim>\<open>json.Marshal\<close> of the result and \<^verbatim>\<open>cbor.Marshal\<close> of the
  response that carries it), the socket handler attempts exactly one response, of type
  \<^verbatim>\<open>TypeVerify\<close> with the serialized result, and the remote-procedure method returns a
  response with \<^verbatim>\<open>Status_OK\<close>, the serialized result and a nil error. Nothing is assumed
  of the result: its verdict is never inspected.
\<close>

theorem verification_failure_is_not_an_error:
  assumes "cbor_Unmarshal_VerificationRequest env payload = Inr req"
    and "socket_env.json_Marshal env
           (socket_env.ar_Verify env (VerificationRequest.AttestationReport req)
              (VerificationRequest.Nonce req) (VerificationRequest.Ca req) (Policies req)
              (PolicyEngineSelect conf) (Serializer conf)) = Inr r"
    and "cbor_Marshal env (VerificationResponse r) = Inr data"
    and "grpc_env.json_Marshal renv
           (grpc_env.ar_Verify renv (ci_VerificationRequest.AttestationReport inp)
              (ci_VerificationRequest.Nonce inp) (server_certs.Ca (certs s)) (roles s)) = Inr rdata"
  shows "responses (verify env conf payload) = [Send data (TypeVerify env)]
         \<and> Verify renv s inp
             = (Some \<lparr>ci_VerificationResponse.Status = Status_OK, VerificationResult = rdata\<rparr>, None)"
  using assms by (simp add: verify_def responses_def Verify_def)

text \<open>
  The theorem at a report that the simple verifier judges false.
\<close>

theorem verification_failure_is_not_an_error_witness:
  "socket_env.ar_Verify demo_env [0] [] [] [] () () = False
   \<and> responses (verify demo_env demo_conf [0]) = [Send [0] 2]
   \<and> grpc_env.ar_Verify demo_rpc [0] [] [3] () = False
   \<and> Verify demo_rpc demo_server
        \<lparr>ci_VerificationRequest.AttestationReport = [0], ci_VerificationRequest.Nonce = []\<rparr>
       = (Some \<lparr>ci_VerificationResponse.Status = Status_OK, VerificationResult = [0]\<rparr>, None)"
  using verification_failure_is_not_an_error [where env = demo_env and conf = demo_conf
      and payload = "[0]" and r = "[0]" and data = "[0]" and renv = demo_rpc and s = demo_server
      and rdata = "[0]"
      and req = "\<lparr>VerificationRequest.AttestationReport = [0], VerificationRequest.Nonce = [],
                    VerificationRequest.Ca = [], Policies = []\<rparr>"
      and inp = "\<lparr>ci_VerificationRequest.AttestationReport = [0],
                    ci_VerificationRequest.Nonce = []\<rparr>"]
  by (simp add: demo_env_def demo_conf_def demo_rpc_def demo_server_def)

section \<open>Properties of the remote-procedure binding\<close>

text \<open>
  C10. In the remote-procedure binding, \<^verbatim>\<open>Attest\<close> answers a missing TLS key and a
  failed signing of the report with a response of \<^verbatim>\<open>Status_FAIL\<close> and a nil error,
  whereas \<^verbatim>\<open>TLSSign\<close> (unknown hash, missing key, failed signing) and \<^verbatim>\<open>TLSCert\<close>
  (no certificate) return a response of \<^verbatim>\<open>Status_FAIL\<close> together with an error.
\<close>

theorem rpc_failure_reporting:
  "(GetTLSKey env = Inl e \<longrightarrow>
      Attest env s inp
        = (Some \<lparr>ci_AttestationResponse.Status = Status_FAIL, AttestationReport = []\<rparr>, None))
   \<and> (GetTLSKey env = Inr (priv, pub)
        \<and> grpc_env.ar_Sign env (tpm s)
             (grpc_env.ar_Generate env (ci_AttestationRequest.Nonce inp) (metadata s) [tpm s]
                [Attest_tpmParams s inp])
             priv pub (Attest_certsPem s) = (False, data) \<longrightarrow>
      Attest env s inp
        = (Some \<lparr>ci_AttestationResponse.Status = Status_FAIL, AttestationReport = data\<rparr>, None))
   \<and> (convertHash env (ci_TLSSignRequest.Hashtype sinp) (ci_TLSSignRequest.PssOpts sinp) = Inl e \<longrightarrow>
      TLSSign env s sinp
        = Returned (Some \<lparr>ci_TLSSignResponse.Status = Status_FAIL, SignedContent = []\<rparr>,
                    Some ''Prover: Failed to find appropriate hash function''))
   \<and> (convertHash env (ci_TLSSignRequest.Hashtype sinp) (ci_TLSSignRequest.PssOpts sinp) = Inr opts
        \<and> GetTLSKey env = Inl e \<longrightarrow>
      TLSSign env s sinp
        = Returned (Some \<lparr>ci_TLSSignResponse.Status = Status_FAIL, SignedContent = []\<rparr>,
                    Some ''Prover: Failed to get TLS key''))
   \<and> (convertHash env (ci_TLSSignRequest.Hashtype sinp) (ci_TLSSignRequest.PssOpts sinp) = Inr opts
        \<and> GetTLSKey env = Inr (priv, pub)
        \<and> grpc_env.crypto_Signer env priv = Some Sign
        \<and> Sign (ci_TLSSignRequest.Content sinp) opts = Inl e \<longrightarrow>
      TLSSign env s sinp
        = Returned (Some \<lparr>ci_TLSSignResponse.Status = Status_FAIL, SignedContent = []\<rparr>,
                    Some ''Prover: Failed to perform Signing operation''))
   \<and> (TLSCert (certs s) = None \<longrightarrow>
      TLSCert_rpc s cinp
        = (Some \<lparr>ci_TLSCertResponse.Status = Status_FAIL, Certificate = []\<rparr>,
           Some ''No TLS Certificate obtained''))"
  by (simp add: Attest_def TLSSign_def TLSCert_rpc_def)

text \<open>
  The theorem at collaborators that fail in each of the six ways.
\<close>

theorem rpc_failure_reporting_witness:
  "Attest (demo_rpc\<lparr>GetTLSKey := Inl ''no key''\<rparr>) demo_server \<lparr>ci_AttestationRequest.Nonce = [1]\<rparr>
     = (Some \<lparr>ci_AttestationResponse.Status = Status_FAIL, AttestationReport = []\<rparr>, None)
   \<and> Attest (demo_rpc\<lparr>grpc_env.ar_Sign := \<lambda>mu a priv pub certs. (False, [])\<rparr>) demo_server
        \<lparr>ci_AttestationRequest.Nonce = [1]\<rparr>
     = (Some \<lparr>ci_AttestationResponse.Status = Status_FAIL, AttestationReport = []\<rparr>, None)
   \<and> TLSSign (demo_rpc\<lparr>convertHash := \<lambda>h ps. Inl ''unknown hash''\<rparr>) demo_server
        \<lparr>ci_TLSSignRequest.Hashtype = (), ci_TLSSignRequest.PssOpts = (),
         ci_TLSSignRequest.Content = [5]\<rparr>
     = Returned (Some \<lparr>ci_TLSSignResponse.Status = Status_FAIL, SignedContent = []\<rparr>,
                 Some ''Prover: Failed to find appropriate hash function'')
   \<and> TLSSign (demo_rpc\<lparr>GetTLSKey := Inl ''no key''\<rparr>) demo_server
        \<lparr>ci_TLSSignRequest.Hashtype = (), ci_TLSSignRequest.PssOpts = (),
         ci_TLSSignRequest.Content = [5]\<rparr>
     = Returned (Some \<lparr>ci_TLSSignResponse.Status = Status_FAIL, SignedContent = []\<rparr>,
                 Some ''Prover: Failed to get TLS key'')
   \<and> TLSSign (demo_rpc\<lparr>grpc_env.crypto_Signer := \<lambda>key. Some (\<lambda>content opts. Inl ''refused'')\<rparr>)
        demo_server
        \<lparr>ci_TLSSignRequest.Hashtype = (), ci_TLSSignRequest.PssOpts = (),
         ci_TLSSignRequest.Content = [5]\<rparr>
     = Returned (Some \<lparr>ci_TLSSignResponse.Status = Status_FAIL, SignedContent = []\<rparr>,
                 Some ''Prover: Failed to perform Signing operation'')
   \<and> TLSCert_rpc (demo_server\<lparr>certs := (certs demo_server)\<lparr>TLSCert := None\<rparr>\<rparr>) ()
     = (Some \<lparr>ci_TLSCertResponse.Status = Status_FAIL, Certificate = []\<rparr>,
        Some ''No TLS Certificate obtained'')"
proof -
  let ?nokey = "demo_rpc\<lparr>GetTLSKey := Inl ''no key''\<rparr>"
  let ?nosign = "demo_rpc\<lparr>grpc_env.ar_Sign := \<lambda>mu a priv pub certs. (False, [])\<rparr>"
  let ?nohash = "demo_rpc\<lparr>convertHash := \<lambda>h ps. Inl ''unknown hash''\<rparr>"
  let ?refuse = "demo_rpc\<lparr>grpc_env.crypto_Signer := \<lambda>key. Some (\<lambda>content opts. Inl ''refused'')\<rparr>"
  let ?sinp = "\<lparr>ci_TLSSignRequest.Hashtype = (), ci_TLSSignRequest.PssOpts = (),
                 ci_TLSSignRequest.Content = [5]\<rparr>"
  have k: "GetTLSKey ?nokey = Inl ''no key''"
    by simp
  have a1: "Attest ?nokey demo_server \<lparr>ci_AttestationRequest.Nonce = [1]\<rparr>
     = (Some \<lparr>ci_AttestationResponse.Status = Status_FAIL, AttestationReport = []\<rparr>, None)"
    using rpc_failure_reporting [THEN conjunct1, THEN mp, OF k] .
  have g1: "GetTLSKey ?nosign = Inr ((), ())"
    and g2: "grpc_env.ar_Sign ?nosign (tpm demo_server)
           (grpc_env.ar_Generate ?nosign (ci_AttestationRequest.Nonce \<lparr>ci_AttestationRequest.Nonce = [1]\<rparr>)
              (metadata demo_server) [tpm demo_server]
              [Attest_tpmParams demo_server \<lparr>ci_AttestationRequest.Nonce = [1]\<rparr>])
           () () (Attest_certsPem demo_server) = (False, [])"
    by (simp_all add: demo_rpc_def)
  have a2: "Attest ?nosign demo_server \<lparr>ci_AttestationRequest.Nonce = [1]\<rparr>
     = (Some \<lparr>ci_AttestationResponse.Status = Status_FAIL, AttestationReport = []\<rparr>, None)"
    by (rule rpc_failure_reporting [THEN conjunct2, THEN conjunct1, THEN mp, OF conjI [OF g1 g2]])
  have h: "convertHash ?nohash (ci_TLSSignRequest.Hashtype ?sinp) (ci_TLSSignRequest.PssOpts ?sinp)
             = Inl ''unknown hash''"
    by simp
  have s1: "TLSSign ?nohash demo_server ?sinp
     = Returned (Some \<lparr>ci_TLSSignResponse.Status = Status_FAIL, SignedContent = []\<rparr>,
                 Some ''Prover: Failed to find appropriate hash function'')"
    using rpc_failure_reporting [THEN conjunct2, THEN conjunct2, THEN conjunct1, THEN mp, OF h] .
  have h2: "convertHash ?nokey (ci_TLSSignRequest.Hashtype ?sinp) (ci_TLSSignRequest.PssOpts ?sinp)
          = Inr ()"
    by (simp add: demo_rpc_def)
  have s2: "TLSSign ?nokey demo_server ?sinp
     = Returned (Some \<lparr>ci_TLSSignResponse.Status = Status_FAIL, SignedContent = []\<rparr>,
                 Some ''Prover: Failed to get TLS key'')"
    by (rule rpc_failure_reporting [THEN conjunct2, THEN conjunct2, THEN conjunct2,
          THEN conjunct1, THEN mp, OF conjI [OF h2 k]])
  have r1: "convertHash ?refuse (ci_TLSSignRequest.Hashtype ?sinp) (ci_TLSSignRequest.PssOpts ?sinp)
          = Inr ()"
    and r2: "GetTLSKey ?refuse = Inr ((), ())"
    and r3: "grpc_env.crypto_Signer ?refuse () = Some (\<lambda>content opts. Inl ''refused'')"
    by (simp_all add: demo_rpc_def)
  have s3: "TLSSign ?refuse demo_server ?sinp
     = Returned (Some \<lparr>ci_TLSSignResponse.Status = Status_FAIL, SignedContent = []\<rparr>,
                 Some ''Prover: Failed to perform Signing operation'')"
    using rpc_failure_reporting [where env = ?refuse and sinp = ?sinp and opts = "()"
        and priv = "()" and pub = "()" and Sign = "\<lambda>content opts. Inl ''refused''"
        and e = "''refused''" and s = demo_server,
        THEN conjunct2, THEN conjunct2, THEN conjunct2, THEN conjunct2, THEN conjunct1]
      r1 r2 r3
    by simp
  have c: "TLSCert (certs (demo_server\<lparr>certs := (certs demo_server)\<lparr>TLSCert := None\<rparr>\<rparr>)) = None"
    by simp
  have c1: "TLSCert_rpc (demo_server\<lparr>certs := (certs demo_server)\<lparr>TLSCert := None\<rparr>\<rparr>) ()
     = (Some \<lparr>ci_TLSCertResponse.Status = Status_FAIL, Certificate = []\<rparr>,
        Some ''No TLS Certificate obtained'')"
    using rpc_failure_reporting [THEN conjunct2, THEN conjunct2, THEN conjunct2, THEN conjunct2,
        THEN conjunct2, THEN mp, OF c] .
  show ?thesis
    using a1 a2 s1 s2 s3 c1 by (intro conjI)
qed

end
